theory Spec2Isabelle
  imports Complex_Main "HOL-Library.AList"
begin

section \<open>Data model\<close>

text \<open>
  A cell of a pandas column is a float. Only the distinction between NaN, the two
  infinities and the finite values matters here; finite values are read as reals.
\<close>

datatype cell = NaN | PInf | NInf | Num real

type_synonym column = "cell list"

text \<open>
  A DataFrame: the row index (timestamps) and the columns in their order, by name.
\<close>

record frame =
  row_index :: "int list"
  cols :: "(string \<times> column) list"

datatype error = KeyError string | IndexError | ValueError | NotFittedError

definition nrows :: "frame \<Rightarrow> nat" where
  "nrows df = length (row_index df)"

definition has_col :: "frame \<Rightarrow> string \<Rightarrow> bool" where
  "has_col df k = (map_of (cols df) k \<noteq> None)"

text \<open>\<^verbatim>\<open>df[k]\<close> raises KeyError when the column is absent.\<close>

definition getcol :: "frame \<Rightarrow> string \<Rightarrow> error + column" where
  "getcol df k = (case map_of (cols df) k of None \<Rightarrow> Inl (KeyError k) | Some c \<Rightarrow> Inr c)"

text \<open>\<^verbatim>\<open>df[k] = c\<close> replaces the column in place when it exists and appends it otherwise.\<close>

definition setcol :: "string \<Rightarrow> column \<Rightarrow> frame \<Rightarrow> frame" where
  "setcol k c df = df\<lparr>cols := AList.update k c (cols df)\<rparr>"

text \<open>Float division of two cells (rounding and signed zeros are not modelled).\<close>

fun fdiv :: "cell \<Rightarrow> cell \<Rightarrow> cell" where
  "fdiv (Num a) (Num b) =
     (if b = 0 then (if a = 0 then NaN else if 0 < a then PInf else NInf) else Num (a / b))"
| "fdiv (Num a) PInf = Num 0"
| "fdiv (Num a) NInf = Num 0"
| "fdiv PInf (Num b) = (if 0 \<le> b then PInf else NInf)"
| "fdiv NInf (Num b) = (if 0 \<le> b then NInf else PInf)"
| "fdiv _ _ = NaN"

text \<open>Float comparison \<^verbatim>\<open><\<close>: false whenever a NaN takes part.\<close>

fun cell_less :: "cell \<Rightarrow> cell \<Rightarrow> bool" where
  "cell_less (Num a) (Num b) = (a < b)"
| "cell_less NInf (Num b) = True"
| "cell_less NInf PInf = True"
| "cell_less (Num a) PInf = True"
| "cell_less _ _ = False"

section \<open>Indicator Engine\<close>

text \<open>
  The series transformers of the \<^verbatim>\<open>ta\<close> and \<^verbatim>\<open>pandas\<close> libraries that
  \<^verbatim>\<open>calculate_technical_indicators\<close> calls are not code of the repository; they are
  parameters of the model. Windowed ones take their window as first argument.
\<close>

record series_lib =
  rsi :: "nat \<Rightarrow> column \<Rightarrow> column"
  macd :: "column \<Rightarrow> column"
  macd_signal :: "column \<Rightarrow> column"
  macd_diff :: "column \<Rightarrow> column"
  bollinger_hband :: "column \<Rightarrow> column"
  bollinger_lband :: "column \<Rightarrow> column"
  bollinger_mavg :: "column \<Rightarrow> column"
  ema_indicator :: "nat \<Rightarrow> column \<Rightarrow> column"
  sma_indicator :: "nat \<Rightarrow> column \<Rightarrow> column"
  pct_change :: "column \<Rightarrow> column"
  rolling_std :: "nat \<Rightarrow> column \<Rightarrow> column"
  rolling_min :: "nat \<Rightarrow> column \<Rightarrow> column"
  rolling_max :: "nat \<Rightarrow> column \<Rightarrow> column"

text \<open>
  One assignment statement \<^verbatim>\<open>df[k] = rhs\<close>: the column name and the right-hand
  side, which reads the frame as it is at that statement and may raise.
\<close>

type_synonym statement = "string \<times> (frame \<Rightarrow> error + column)"

text \<open>\<^verbatim>\<open>f(df[k])\<close>\<close>

definition on_col :: "string \<Rightarrow> (column \<Rightarrow> column) \<Rightarrow> frame \<Rightarrow> error + column" where
  "on_col k f df = (case getcol df k of Inl e \<Rightarrow> Inl e | Inr c \<Rightarrow> Inr (f c))"

text \<open>\<^verbatim>\<open>df[a] / df[b]\<close>\<close>

definition ratio_cols :: "string \<Rightarrow> string \<Rightarrow> frame \<Rightarrow> error + column" where
  "ratio_cols a b df =
     (case getcol df a of Inl e \<Rightarrow> Inl e
      | Inr x \<Rightarrow> (case getcol df b of Inl e \<Rightarrow> Inl e | Inr y \<Rightarrow> Inr (map2 fdiv x y)))"

text \<open>Statements in sequence; the first exception leaves the function.\<close>

fun run :: "statement list \<Rightarrow> frame \<Rightarrow> error + frame" where
  "run [] df = Inr df"
| "run ((k, rhs) # ss) df =
     (case rhs df of Inl e \<Rightarrow> Inl e | Inr c \<Rightarrow> run ss (setcol k c df))"

definition OHLCV :: "string list" where
  "OHLCV = [''open'', ''high'', ''low'', ''close'', ''volume'']"

text \<open>Lines 30 to 34: when an OHLCV column is missing, high, low and open are set to close.\<close>

definition default_steps :: "statement list" where
  "default_steps =
     [(''high'', on_col ''close'' id),
      (''low'', on_col ''close'' id),
      (''open'', on_col ''close'' id)]"

text \<open>Lines 36 to 70.\<close>

definition indicator_steps :: "series_lib \<Rightarrow> statement list" where
  "indicator_steps lib =
     [(''rsi'', on_col ''close'' (rsi lib 14)),
      (''macd'', on_col ''close'' (macd lib)),
      (''macd_signal'', on_col ''close'' (macd_signal lib)),
      (''macd_diff'', on_col ''close'' (macd_diff lib)),
      (''bb_high'', on_col ''close'' (bollinger_hband lib)),
      (''bb_low'', on_col ''close'' (bollinger_lband lib)),
      (''bb_mid'', on_col ''close'' (bollinger_mavg lib)),
      (''ema_9'', on_col ''close'' (ema_indicator lib 9)),
      (''ema_21'', on_col ''close'' (ema_indicator lib 21)),
      (''sma_50'', on_col ''close'' (sma_indicator lib 50)),
      (''volume_ema'', on_col ''volume'' (ema_indicator lib 20)),
      (''volume_ratio'', ratio_cols ''volume'' ''volume_ema''),
      (''price_change'', on_col ''close'' (pct_change lib)),
      (''high_low_ratio'', ratio_cols ''high'' ''low''),
      (''close_open_ratio'', ratio_cols ''close'' ''open''),
      (''volatility'', on_col ''close'' (rolling_std lib 20)),
      (''support'', on_col ''low'' (rolling_min lib 20)),
      (''resistance'', on_col ''high'' (rolling_max lib 20))]"

text \<open>
  The frame after line 70. The caller's frame is mutated in place, so this is also the
  state in which the argument is left.
\<close>

definition add_indicators :: "series_lib \<Rightarrow> frame \<Rightarrow> error + frame" where
  "add_indicators lib df =
     run ((if list_all (has_col df) OHLCV then [] else default_steps) @ indicator_steps lib) df"

text \<open>\<^verbatim>\<open>fillna(method='ffill')\<close>: a NaN takes the last value before it that is not NaN.\<close>

fun ffill_from :: "cell \<Rightarrow> column \<Rightarrow> column" where
  "ffill_from prev [] = []"
| "ffill_from prev (x # xs) =
     (if x = NaN then prev # ffill_from prev xs else x # ffill_from x xs)"

definition ffill :: "column \<Rightarrow> column" where
  "ffill c = ffill_from NaN c"

definition fillna :: "cell \<Rightarrow> column \<Rightarrow> column" where
  "fillna v c = map (\<lambda>x. if x = NaN then v else x) c"

definition fill_frame :: "frame \<Rightarrow> frame" where
  "fill_frame df = df\<lparr>cols := map (\<lambda>(k, c). (k, fillna (Num 0) (ffill c))) (cols df)\<rparr>"

text \<open>Line 72 returns a new, filled frame.\<close>

definition calculate_technical_indicators :: "series_lib \<Rightarrow> frame \<Rightarrow> error + frame" where
  "calculate_technical_indicators lib df =
     (case add_indicators lib df of Inl e \<Rightarrow> Inl e | Inr d \<Rightarrow> Inr (fill_frame d))"

section \<open>Feature Builder\<close>

definition FEATURE_COLUMNS :: "string list" where
  "FEATURE_COLUMNS =
     [''rsi'', ''macd'', ''macd_signal'', ''macd_diff'',
      ''bb_high'', ''bb_low'', ''bb_mid'',
      ''ema_9'', ''ema_21'', ''sma_50'',
      ''volume_ratio'', ''price_change'',
      ''high_low_ratio'', ''close_open_ratio'',
      ''volatility'']"

text \<open>\<^verbatim>\<open>df[ks]\<close> with a list of names: the named columns in the order of the list.\<close>

fun select_cols :: "string list \<Rightarrow> frame \<Rightarrow> error + (string \<times> column) list" where
  "select_cols [] df = Inr []"
| "select_cols (k # ks) df =
     (case getcol df k of Inl e \<Rightarrow> Inl e
      | Inr c \<Rightarrow> (case select_cols ks df of Inl e \<Rightarrow> Inl e | Inr r \<Rightarrow> Inr ((k, c) # r)))"

definition select_frame :: "string list \<Rightarrow> frame \<Rightarrow> error + frame" where
  "select_frame ks df =
     (case select_cols ks df of Inl e \<Rightarrow> Inl e | Inr r \<Rightarrow> Inr (df\<lparr>cols := r\<rparr>))"

section \<open>Predictor Ensemble\<close>

text \<open>
  The estimators of \<^verbatim>\<open>sklearn\<close> and \<^verbatim>\<open>prophet\<close> are external. A fitted
  estimator is represented by what it predicts: a regressor by its prediction on a scaled
  feature row, a classifier by its class and class probabilities on a scaled feature row,
  the forecaster by its forecast one step beyond the last observed timestamp.
\<close>

type_synonym regressor = "real list \<Rightarrow> real"

record classifier =
  predict_class :: "real list \<Rightarrow> nat"
  predict_proba :: "real list \<Rightarrow> real \<times> real"

datatype forecaster = Forecaster (yhat_next: real)

text \<open>\<^verbatim>\<open>StandardScaler\<close>: unfitted, or fitted with one mean and one variance per column.\<close>

datatype scaler = Unfitted | Fitted (sc_mean: "real list") (sc_var: "real list")

record trader =
  price_predictor :: "regressor option"
  trend_classifier :: "classifier option"
  scaler :: scaler
  prophet_model :: "forecaster option"
  lstm_model :: "unit option"
  feature_columns :: "string list"

text \<open>\<^verbatim>\<open>SolanaAITrader.__init__\<close>\<close>

definition init_trader :: trader where
  "init_trader =
     \<lparr>price_predictor = None, trend_classifier = None, scaler = Unfitted,
      prophet_model = None, lstm_model = None, feature_columns = []\<rparr>"

text \<open>
  \<^verbatim>\<open>prepare_features\<close> returns the selected columns; it also sets
  \<^verbatim>\<open>self.feature_columns\<close> and leaves the caller's frame with the indicator columns
  added, so the model returns the trader, the mutated frame \<open>d\<close> and the features. The
  frame selected from, \<open>fill_frame d\<close>, is what \<^verbatim>\<open>calculate_technical_indicators\<close>
  returns. A call that raises returns only its error: what it had assigned before the
  exception is not tracked, here and in the routines below.
\<close>

definition prepare_features ::
    "series_lib \<Rightarrow> trader \<Rightarrow> frame \<Rightarrow> error + (trader \<times> frame \<times> frame)" where
  "prepare_features lib t df =
     (case add_indicators lib df of Inl e \<Rightarrow> Inl e
      | Inr d \<Rightarrow>
          (let t' = t\<lparr>feature_columns := FEATURE_COLUMNS\<rparr>
           in case select_frame (feature_columns t') (fill_frame d) of Inl e \<Rightarrow> Inl e
              | Inr X \<Rightarrow> Inr (t', d, X)))"

subsection \<open>Rows and matrices\<close>

fun hd_cell :: "column \<Rightarrow> cell" where
  "hd_cell [] = NaN"
| "hd_cell (x # xs) = x"

fun rows_for :: "'a list \<Rightarrow> column list \<Rightarrow> cell list list" where
  "rows_for [] cs = []"
| "rows_for (i # is) cs = map hd_cell cs # rows_for is (map tl cs)"

text \<open>The rows of a frame, one per entry of the index, read by position.\<close>

definition frame_rows :: "frame \<Rightarrow> cell list list" where
  "frame_rows df = rows_for (row_index df) (map snd (cols df))"

fun collect :: "(error + 'a) list \<Rightarrow> error + 'a list" where
  "collect [] = Inr []"
| "collect (x # xs) =
     (case x of Inl e \<Rightarrow> Inl e
      | Inr v \<Rightarrow> (case collect xs of Inl e \<Rightarrow> Inl e | Inr vs \<Rightarrow> Inr (v # vs)))"

fun cell_real :: "cell \<Rightarrow> error + real" where
  "cell_real (Num x) = Inr x"
| "cell_real _ = Inl ValueError"

text \<open>
  The input validation of \<^verbatim>\<open>sklearn\<close>: an array without samples, or with an
  infinity, is a ValueError. A NaN passes the scaler and is refused by the estimator that
  the scaled rows are handed to next; since a failed call returns only its error here,
  the model refuses it at the scaler already.
\<close>

definition to_matrix :: "cell list list \<Rightarrow> error + real list list" where
  "to_matrix rows =
     (if rows = [] then Inl ValueError else collect (map (\<lambda>r. collect (map cell_real r)) rows))"

definition mean :: "real list \<Rightarrow> real" where
  "mean xs = sum_list xs / real (length xs)"

definition variance :: "real list \<Rightarrow> real" where
  "variance xs = sum_list (map (\<lambda>x. (x - mean xs)\<^sup>2) xs) / real (length xs)"

definition fit_params :: "real list list \<Rightarrow> scaler" where
  "fit_params M = Fitted (map mean (transpose M)) (map variance (transpose M))"

definition scale_of :: "real \<Rightarrow> real" where
  "scale_of v = (if v = 0 then 1 else sqrt v)"

definition scale_row :: "real list \<Rightarrow> real list \<Rightarrow> real list \<Rightarrow> real list" where
  "scale_row m v r = map (\<lambda>(x, mu, va). (x - mu) / scale_of va) (zip r (zip m v))"

text \<open>\<^verbatim>\<open>scaler.transform\<close>: the fitted check comes first, then the input validation.\<close>

definition scaler_transform :: "scaler \<Rightarrow> cell list list \<Rightarrow> error + real list list" where
  "scaler_transform s rows =
     (case s of Unfitted \<Rightarrow> Inl NotFittedError
      | Fitted m v \<Rightarrow>
          (case to_matrix rows of Inl e \<Rightarrow> Inl e
           | Inr M \<Rightarrow>
               if list_ex (\<lambda>r. length r \<noteq> length m) M then Inl ValueError
               else Inr (map (scale_row m v) M)))"

text \<open>\<^verbatim>\<open>scaler.fit_transform\<close>: the parameters are replaced by those of the given rows.\<close>

definition scaler_fit_transform :: "cell list list \<Rightarrow> error + (scaler \<times> real list list)" where
  "scaler_fit_transform rows =
     (case to_matrix rows of Inl e \<Rightarrow> Inl e
      | Inr M \<Rightarrow> Inr (fit_params M, map (scale_row (sc_mean (fit_params M)) (sc_var (fit_params M))) M))"

subsection \<open>Inference\<close>

text \<open>
  A member that is set is truthy (a fitted ensemble has a positive number of estimators),
  so \<^verbatim>\<open>if self.price_predictor\<close> and its like test for \<^verbatim>\<open>None\<close>. The prediction
  dictionary is a list of pairs in insertion order.
\<close>

definition predict_price :: "trader \<Rightarrow> frame \<Rightarrow> error + (string \<times> real) list" where
  "predict_price t current_features =
     (case (case price_predictor t of None \<Rightarrow> Inr []
            | Some rf \<Rightarrow>
                (case select_frame (feature_columns t) current_features of Inl e \<Rightarrow> Inl e
                 | Inr X \<Rightarrow>
                     (case scaler_transform (scaler t) (frame_rows X) of Inl e \<Rightarrow> Inl e
                      | Inr [] \<Rightarrow> Inl IndexError
                      | Inr (r # _) \<Rightarrow> Inr [(''random_forest'', rf r)]))) of
        Inl e \<Rightarrow> Inl e
      | Inr p1 \<Rightarrow>
          (let p2 = (case prophet_model t of None \<Rightarrow> p1
                     | Some pm \<Rightarrow> p1 @ [(''prophet'', yhat_next pm)])
           in Inr (if p2 \<noteq> [] then p2 @ [(''ensemble'', mean (map snd p2))] else p2)))"

record trend_result =
  trend :: string
  trend_confidence :: real
  probabilities :: "(real \<times> real) option"

definition predict_trend :: "trader \<Rightarrow> frame \<Rightarrow> error + trend_result" where
  "predict_trend t current_features =
     (case trend_classifier t of
        None \<Rightarrow> Inr \<lparr>trend = ''neutral'', trend_confidence = 0.5, probabilities = None\<rparr>
      | Some clf \<Rightarrow>
          (case select_frame (feature_columns t) current_features of Inl e \<Rightarrow> Inl e
           | Inr X \<Rightarrow>
               (case scaler_transform (scaler t) (frame_rows X) of Inl e \<Rightarrow> Inl e
                | Inr [] \<Rightarrow> Inl IndexError
                | Inr (r # _) \<Rightarrow>
                    Inr \<lparr>trend = (if predict_class clf r = 1 then ''bullish'' else ''bearish''),
                         trend_confidence = max (fst (predict_proba clf r)) (snd (predict_proba clf r)),
                         probabilities = Some (predict_proba clf r)\<rparr>)))"

section \<open>Signal Fusion\<close>

record indicator_signal =
  ind_value :: cell
  ind_signal :: string

record trading_signal =
  timestamp :: string
  price_prediction :: "(string \<times> real) list"
  trend_analysis :: trend_result
  technical_rsi :: indicator_signal
  technical_macd :: indicator_signal
  recommendation :: string
  confidence :: real

text \<open>\<^verbatim>\<open>latest_data.get(k, default)\<close> on the last row of the frame.\<close>

definition latest_get :: "frame \<Rightarrow> string \<Rightarrow> cell \<Rightarrow> cell" where
  "latest_get df k dflt =
     (case map_of (cols df) k of None \<Rightarrow> dflt
      | Some c \<Rightarrow> (if nrows df - 1 < length c then c ! (nrows df - 1) else NaN))"

text \<open>\<^verbatim>\<open>iloc[-1:]\<close>\<close>

definition last_rows :: "frame \<Rightarrow> frame" where
  "last_rows df =
     df\<lparr>row_index := drop (nrows df - 1) (row_index df),
        cols := map (\<lambda>(k, c). (k, drop (nrows df - 1) c)) (cols df)\<rparr>"

definition rsi_signal_of :: "cell \<Rightarrow> string" where
  "rsi_signal_of v =
     (if cell_less v (Num 30) then ''oversold''
      else if cell_less (Num 70) v then ''overbought'' else ''neutral'')"

definition macd_signal_of :: "cell \<Rightarrow> string" where
  "macd_signal_of v = (if cell_less (Num 0) v then ''bullish'' else ''bearish'')"

text \<open>Lines 281 to 297: the two counters after the three votes.\<close>

definition count_signals :: "string \<Rightarrow> string \<Rightarrow> string \<Rightarrow> nat \<times> nat" where
  "count_signals tr rs ms =
     (let bullish_signals = 0; bearish_signals = 0;
          (bullish_signals, bearish_signals) =
             (if tr = ''bullish'' then (bullish_signals + 2, bearish_signals)
              else (bullish_signals, bearish_signals + 2));
          (bullish_signals, bearish_signals) =
             (if rs = ''oversold'' then (bullish_signals + 1, bearish_signals)
              else if rs = ''overbought'' then (bullish_signals, bearish_signals + 1)
              else (bullish_signals, bearish_signals));
          (bullish_signals, bearish_signals) =
             (if ms = ''bullish'' then (bullish_signals + 1, bearish_signals)
              else (bullish_signals, bearish_signals + 1))
      in (bullish_signals, bearish_signals))"

text \<open>Lines 299 to 308.\<close>

definition make_recommendation :: "nat \<Rightarrow> nat \<Rightarrow> string \<times> real" where
  "make_recommendation bullish_signals bearish_signals =
     (if bullish_signals > bearish_signals + 1
      then (''BUY'', real bullish_signals / real (bullish_signals + bearish_signals))
      else if bearish_signals > bullish_signals + 1
      then (''SELL'', real bearish_signals / real (bullish_signals + bearish_signals))
      else (''HOLD'', 0.5))"

definition generate_trading_signals ::
    "series_lib \<Rightarrow> string \<Rightarrow> trader \<Rightarrow> frame \<Rightarrow> error + (trader \<times> trading_signal)" where
  "generate_trading_signals lib now t df =
     (if nrows df = 0 then Inl IndexError
      else
        (let rsi_value = latest_get df ''rsi'' (Num 50);
             macd_value = latest_get df ''macd_diff'' (Num 0)
         in case prepare_features lib t df of Inl e \<Rightarrow> Inl e
            | Inr (t', d, X) \<Rightarrow>
                (case predict_price t' (last_rows X) of Inl e \<Rightarrow> Inl e
                 | Inr pp \<Rightarrow>
                     (case predict_trend t' (last_rows X) of Inl e \<Rightarrow> Inl e
                      | Inr ta \<Rightarrow>
                          (let rs = rsi_signal_of rsi_value;
                               ms = macd_signal_of macd_value;
                               (b, s) = count_signals (trend ta) rs ms;
                               (rec, conf) = make_recommendation b s
                           in Inr (t',
                                \<lparr>timestamp = now, price_prediction = pp, trend_analysis = ta,
                                 technical_rsi = \<lparr>ind_value = rsi_value, ind_signal = rs\<rparr>,
                                 technical_macd = \<lparr>ind_value = macd_value, ind_signal = ms\<rparr>,
                                 recommendation = rec, confidence = conf\<rparr>))))))"

section \<open>Training\<close>

text \<open>The fit routines of the external estimators; each may raise.\<close>

record learners =
  rf_fit :: "real list list \<Rightarrow> real list \<Rightarrow> error + regressor"
  gb_fit :: "real list list \<Rightarrow> nat list \<Rightarrow> error + classifier"
  prophet_fit :: "(int \<times> cell) list \<Rightarrow> error + forecaster"

text \<open>\<^verbatim>\<open>shift(-n)\<close>: row i takes the value of row i + n; the last n rows are NaN.\<close>

definition shift_back :: "nat \<Rightarrow> column \<Rightarrow> column" where
  "shift_back n c = drop n c @ replicate (min n (length c)) NaN"

text \<open>\<^verbatim>\<open>x - 1\<close> on a cell.\<close>

fun fsub1 :: "cell \<Rightarrow> cell" where
  "fsub1 (Num a) = Num (a - 1)"
| "fsub1 c = c"

text \<open>
  \<^verbatim>\<open>train_test_split(X, y, test_size=0.2, shuffle=False)\<close>: the test partition has
  \<open>ceil(0.2 * n)\<close> rows, the training partition the rows before them; an empty training
  partition is a ValueError. (The float product \<open>0.2 * n\<close> rounds to the integer
  \<open>n / 5\<close> when 5 divides n, so the ceiling is that of the exact quotient.)
\<close>

definition n_test :: "nat \<Rightarrow> nat" where
  "n_test n = (n + 4) div 5"

definition n_train :: "nat \<Rightarrow> nat" where
  "n_train n = n - n_test n"

definition train_test_split ::
    "'a list \<Rightarrow> 'b list \<Rightarrow> error + ('a list \<times> 'a list \<times> 'b list \<times> 'b list)" where
  "train_test_split X y =
     (if n_train (length X) = 0 then Inl ValueError
      else Inr (take (n_train (length X)) X, drop (n_train (length X)) X,
                take (n_train (length X)) y, drop (n_train (length X)) y))"

definition train_price_predictor ::
    "learners \<Rightarrow> series_lib \<Rightarrow> trader \<Rightarrow> frame \<Rightarrow> error + (trader \<times> frame)" where
  "train_price_predictor L lib t df =
     (case prepare_features lib t df of Inl e \<Rightarrow> Inl e
      | Inr (t1, d, X) \<Rightarrow>
      (case getcol d ''close'' of Inl e \<Rightarrow> Inl e
      | Inr close \<Rightarrow>
      (let y = shift_back 1 close;
           valid = filter (\<lambda>(r, v). NaN \<notin> set r \<and> v \<noteq> NaN) (zip (frame_rows X) y)
       in case train_test_split (map fst valid) (map snd valid) of Inl e \<Rightarrow> Inl e
      | Inr (X_train, X_test, y_train, y_test) \<Rightarrow>
      (case scaler_fit_transform X_train of Inl e \<Rightarrow> Inl e
      | Inr (sc, X_train_scaled) \<Rightarrow>
      (case scaler_transform sc X_test of Inl e \<Rightarrow> Inl e
      | Inr X_test_scaled \<Rightarrow>
      (case collect (map cell_real y_train) of Inl e \<Rightarrow> Inl e
      | Inr y_train_values \<Rightarrow>
      (case rf_fit L X_train_scaled y_train_values of Inl e \<Rightarrow> Inl e
      | Inr rf \<Rightarrow> Inr (t1\<lparr>scaler := sc, price_predictor := Some rf\<rparr>, d))))))))"

definition train_trend_classifier ::
    "learners \<Rightarrow> series_lib \<Rightarrow> trader \<Rightarrow> frame \<Rightarrow> error + (trader \<times> frame)" where
  "train_trend_classifier L lib t df =
     (case prepare_features lib t df of Inl e \<Rightarrow> Inl e
      | Inr (t1, d, X) \<Rightarrow>
      (case getcol d ''close'' of Inl e \<Rightarrow> Inl e
      | Inr close \<Rightarrow>
      (let future_return = map2 (\<lambda>a b. fsub1 (fdiv a b)) (shift_back 5 close) close;
           d' = setcol ''future_return'' future_return d;
           y = map (\<lambda>v. if cell_less (Num 0.02) v then 1 else 0 :: nat) future_return;
           valid = filter (\<lambda>(r, v). NaN \<notin> set r) (zip (frame_rows X) y)
       in case train_test_split (map fst valid) (map snd valid) of Inl e \<Rightarrow> Inl e
      | Inr (X_train, X_test, y_train, y_test) \<Rightarrow>
      (case scaler_fit_transform X_train of Inl e \<Rightarrow> Inl e
      | Inr (sc, X_train_scaled) \<Rightarrow>
      (case scaler_transform sc X_test of Inl e \<Rightarrow> Inl e
      | Inr X_test_scaled \<Rightarrow>
      (case gb_fit L X_train_scaled y_train of Inl e \<Rightarrow> Inl e
      | Inr clf \<Rightarrow> Inr (t1\<lparr>scaler := sc, trend_classifier := Some clf\<rparr>, d')))))))"

definition train_prophet_model ::
    "learners \<Rightarrow> trader \<Rightarrow> frame \<Rightarrow> error + (trader \<times> frame)" where
  "train_prophet_model L t df =
     (case getcol df ''close'' of Inl e \<Rightarrow> Inl e
      | Inr close \<Rightarrow>
          (case prophet_fit L (zip (row_index df) close) of Inl e \<Rightarrow> Inl e
           | Inr pm \<Rightarrow> Inr (t\<lparr>prophet_model := Some pm\<rparr>, df)))"

text \<open>
  \<^verbatim>\<open>train_ai_models\<close>: the three routines in turn on one new trader and on the same
  frame object. (A frame of the model carries its timestamps as its index already.)
\<close>

definition train_ai_models :: "learners \<Rightarrow> series_lib \<Rightarrow> frame \<Rightarrow> error + trader" where
  "train_ai_models L lib historical_data =
     (case train_price_predictor L lib init_trader historical_data of Inl e \<Rightarrow> Inl e
      | Inr (t1, d1) \<Rightarrow>
          (case train_trend_classifier L lib t1 d1 of Inl e \<Rightarrow> Inl e
           | Inr (t2, d2) \<Rightarrow>
               (case train_prophet_model L t2 d2 of Inl e \<Rightarrow> Inl e
                | Inr (t3, d3) \<Rightarrow> Inr t3)))"

section \<open>Persistence\<close>

text \<open>
  The directory of saved models: one entry per file, \<open>None\<close> when the file is missing or
  does not load. \<^verbatim>\<open>joblib\<close> is external; a dumped object is taken to load back equal.
\<close>

record model_dir =
  price_predictor_pkl :: "regressor option"
  trend_classifier_pkl :: "classifier option"
  scaler_pkl :: "scaler option"
  prophet_model_pkl :: "forecaster option"

text \<open>
  \<^verbatim>\<open>save_models\<close> writes the members that are set; the scaler object is always set.
\<close>

definition save_models :: "trader \<Rightarrow> model_dir \<Rightarrow> model_dir" where
  "save_models t fs =
     (let fs = (case price_predictor t of None \<Rightarrow> fs
                | Some m \<Rightarrow> fs\<lparr>price_predictor_pkl := Some m\<rparr>);
          fs = (case trend_classifier t of None \<Rightarrow> fs
                | Some m \<Rightarrow> fs\<lparr>trend_classifier_pkl := Some m\<rparr>);
          fs = fs\<lparr>scaler_pkl := Some (scaler t)\<rparr>;
          fs = (case prophet_model t of None \<Rightarrow> fs
                | Some m \<Rightarrow> fs\<lparr>prophet_model_pkl := Some m\<rparr>)
      in fs)"

text \<open>
  \<^verbatim>\<open>load_models\<close>: four loads in sequence inside one \<^verbatim>\<open>try\<close>; the handler only logs.
  The result is the trader and whether the success message was logged.
\<close>

definition load_models :: "trader \<Rightarrow> model_dir \<Rightarrow> trader \<times> bool" where
  "load_models t fs =
     (case price_predictor_pkl fs of None \<Rightarrow> (t, False)
      | Some rf \<Rightarrow>
     (let t = t\<lparr>price_predictor := Some rf\<rparr>
      in case trend_classifier_pkl fs of None \<Rightarrow> (t, False)
      | Some clf \<Rightarrow>
     (let t = t\<lparr>trend_classifier := Some clf\<rparr>
      in case scaler_pkl fs of None \<Rightarrow> (t, False)
      | Some sc \<Rightarrow>
     (let t = t\<lparr>scaler := sc\<rparr>
      in case prophet_model_pkl fs of None \<Rightarrow> (t, False)
      | Some pm \<Rightarrow> (t\<lparr>prophet_model := Some pm\<rparr>, True)))))"

definition empty_dir :: model_dir where
  "empty_dir =
     \<lparr>price_predictor_pkl = None, trend_classifier_pkl = None, scaler_pkl = None,
      prophet_model_pkl = None\<rparr>"

section \<open>Properties used in the statements\<close>

text \<open>The last value that is not NaN at or before row i of a column, if there is one.\<close>

definition last_defined :: "column \<Rightarrow> nat \<Rightarrow> cell option" where
  "last_defined c i =
     (case filter (\<lambda>x. x \<noteq> NaN) (take (Suc i) c) of [] \<Rightarrow> None | y # ys \<Rightarrow> Some (last (y # ys)))"

text \<open>The first n rows of a frame.\<close>

definition head_rows :: "nat \<Rightarrow> frame \<Rightarrow> frame" where
  "head_rows n df =
     df\<lparr>row_index := take n (row_index df), cols := map (\<lambda>(k, c). (k, take n c)) (cols df)\<rparr>"

text \<open>
  A series transformer without look-ahead: its first n output rows are determined by the
  first n input rows.
\<close>

definition causal :: "(column \<Rightarrow> column) \<Rightarrow> bool" where
  "causal f = (\<forall>xs n. f (take n xs) = take n (f xs))"

definition causal_lib :: "series_lib \<Rightarrow> bool" where
  "causal_lib lib =
     (causal (rsi lib 14) \<and> causal (macd lib) \<and> causal (macd_signal lib) \<and>
      causal (macd_diff lib) \<and> causal (bollinger_hband lib) \<and> causal (bollinger_lband lib) \<and>
      causal (bollinger_mavg lib) \<and> causal (ema_indicator lib 9) \<and>
      causal (ema_indicator lib 21) \<and> causal (sma_indicator lib 50) \<and>
      causal (ema_indicator lib 20) \<and> causal (pct_change lib) \<and>
      causal (rolling_std lib 20) \<and> causal (rolling_min lib 20) \<and>
      causal (rolling_max lib 20))"

section \<open>A reference instance of the external libraries\<close>

text \<open>
  The theorems below hold for every series library and every learner. To instantiate
  them on concrete inputs, this section defines one instance, following the indicator
  definitions of section 4.1 of the specification: every indicator value at a row is a
  function of the history up to and including that row.
\<close>

fun per_row_from :: "(column \<Rightarrow> cell) \<Rightarrow> column \<Rightarrow> column \<Rightarrow> column" where
  "per_row_from g h [] = []"
| "per_row_from g h (x # xs) = g (h @ [x]) # per_row_from g (h @ [x]) xs"

definition per_row :: "(column \<Rightarrow> cell) \<Rightarrow> column \<Rightarrow> column" where
  "per_row g xs = per_row_from g [] xs"

fun cell_opt :: "cell \<Rightarrow> real option" where
  "cell_opt (Num x) = Some x"
| "cell_opt _ = None"

text \<open>The last w values of a history, when it has w rows and all of them are finite.\<close>

definition window :: "nat \<Rightarrow> column \<Rightarrow> real list option" where
  "window w h = (if length h < w then None else those (map cell_opt (drop (length h - w) h)))"

definition sma_at :: "nat \<Rightarrow> column \<Rightarrow> cell" where
  "sma_at w h = (case window w h of None \<Rightarrow> NaN | Some vs \<Rightarrow> Num (mean vs))"

definition std_at :: "nat \<Rightarrow> nat \<Rightarrow> column \<Rightarrow> cell" where
  "std_at ddof w h =
     (case window w h of None \<Rightarrow> NaN
      | Some vs \<Rightarrow> Num (sqrt (sum_list (map (\<lambda>x. (x - mean vs)\<^sup>2) vs) / real (w - ddof))))"

definition min_at :: "nat \<Rightarrow> column \<Rightarrow> cell" where
  "min_at w h =
     (case window w h of None \<Rightarrow> NaN | Some [] \<Rightarrow> NaN | Some (v # vs) \<Rightarrow> Num (fold min vs v))"

definition max_at :: "nat \<Rightarrow> column \<Rightarrow> cell" where
  "max_at w h =
     (case window w h of None \<Rightarrow> NaN | Some [] \<Rightarrow> NaN | Some (v # vs) \<Rightarrow> Num (fold max vs v))"

text \<open>Exponential smoothing of a list of values with factor a, started at the first value.\<close>

definition smooth :: "real \<Rightarrow> real list \<Rightarrow> real" where
  "smooth a vs = (case vs of [] \<Rightarrow> 0 | v # ws \<Rightarrow> fold (\<lambda>x acc. a * x + (1 - a) * acc) ws v)"

definition ema_at :: "nat \<Rightarrow> column \<Rightarrow> cell" where
  "ema_at w h =
     (if length h < w then NaN
      else case those (map cell_opt h) of None \<Rightarrow> NaN
           | Some vs \<Rightarrow> Num (smooth (2 / (real w + 1)) vs))"

fun cell_sub :: "cell \<Rightarrow> cell \<Rightarrow> cell" where
  "cell_sub (Num a) (Num b) = Num (a - b)"
| "cell_sub _ _ = NaN"

fun cell_add2 :: "cell \<Rightarrow> real \<Rightarrow> cell \<Rightarrow> cell" where
  "cell_add2 (Num a) k (Num b) = Num (a + k * b)"
| "cell_add2 _ _ _ = NaN"

definition macd_at :: "column \<Rightarrow> cell" where
  "macd_at h = cell_sub (ema_at 12 h) (ema_at 26 h)"

definition macd_signal_at :: "column \<Rightarrow> cell" where
  "macd_signal_at h = ema_at 9 (filter (\<lambda>c. c \<noteq> NaN) (per_row macd_at h))"

definition pct_at :: "column \<Rightarrow> cell" where
  "pct_at h = (case rev h of b # a # _ \<Rightarrow> fsub1 (fdiv b a) | _ \<Rightarrow> NaN)"

definition rsi_at :: "nat \<Rightarrow> column \<Rightarrow> cell" where
  "rsi_at w h =
     (if length h \<le> w then NaN
      else case those (map cell_opt h) of None \<Rightarrow> NaN
           | Some vs \<Rightarrow>
               (let ds = map2 (\<lambda>a b. b - a) vs (tl vs);
                    up = smooth (1 / real w) (map (\<lambda>d. max d 0) ds);
                    dn = smooth (1 / real w) (map (\<lambda>d. max (- d) 0) ds)
                in if dn = 0 then Num 100 else Num (100 - 100 / (1 + up / dn))))"

definition reference_lib :: series_lib where
  "reference_lib =
     \<lparr>rsi = (\<lambda>w. per_row (rsi_at w)),
      macd = per_row macd_at,
      macd_signal = per_row macd_signal_at,
      macd_diff = per_row (\<lambda>h. cell_sub (macd_at h) (macd_signal_at h)),
      bollinger_hband = per_row (\<lambda>h. cell_add2 (sma_at 20 h) 2 (std_at 0 20 h)),
      bollinger_lband = per_row (\<lambda>h. cell_add2 (sma_at 20 h) (- 2) (std_at 0 20 h)),
      bollinger_mavg = per_row (sma_at 20),
      ema_indicator = (\<lambda>w. per_row (ema_at w)),
      sma_indicator = (\<lambda>w. per_row (sma_at w)),
      pct_change = per_row pct_at,
      rolling_std = (\<lambda>w. per_row (std_at 1 w)),
      rolling_min = (\<lambda>w. per_row (min_at w)),
      rolling_max = (\<lambda>w. per_row (max_at w))\<rparr>"

text \<open>
  Learners for the instance: a regressor that predicts the mean target, a classifier that
  predicts the majority class with the class frequencies as probabilities (and, like the
  gradient boosting classifier, refuses labels of a single class), a forecaster that
  repeats the last observation.
\<close>

definition reference_learners :: learners where
  "reference_learners =
     \<lparr>rf_fit = (\<lambda>X y. if X = [] then Inl ValueError else Inr (\<lambda>r. mean y)),
      gb_fit = (\<lambda>X y.
         if 0 \<in> set y \<and> 1 \<in> set y
         then Inr \<lparr>predict_class = (\<lambda>r. if length y < 2 * sum_list y then 1 else 0),
                  predict_proba = (\<lambda>r. (1 - real (sum_list y) / real (length y),
                                         real (sum_list y) / real (length y)))\<rparr>
         else Inl ValueError),
      prophet_fit = (\<lambda>obs.
         case those (map (cell_opt \<circ> snd) obs) of None \<Rightarrow> Inl ValueError
         | Some vs \<Rightarrow> if length vs < 2 then Inl ValueError else Inr (Forecaster (last vs)))\<rparr>"

subsection \<open>Example inputs\<close>

text \<open>Seven hourly bars; the close rises by ten percent after the fifth bar.\<close>

definition example_series :: frame where
  "example_series =
     \<lparr>row_index = [1, 2, 3, 4, 5, 6, 7],
      cols =
        [(''open'', [Num 100, Num 100, Num 100, Num 100, Num 100, Num 100, Num 110]),
         (''high'', [Num 200, Num 200, Num 200, Num 200, Num 400, Num 200, Num 200]),
         (''low'', [Num 100, Num 100, Num 100, Num 100, Num 100, Num 100, Num 100]),
         (''close'', [Num 100, Num 100, Num 100, Num 100, Num 100, Num 110, Num 110]),
         (''volume'', [Num 1000, Num 1000, Num 1000, Num 1000, Num 1000, Num 1000, Num 1000])]\<rparr>"

text \<open>A series with a repeated and decreasing timestamp, a negative price and a negative volume.\<close>

definition malformed_series :: frame where
  "malformed_series =
     \<lparr>row_index = [2, 1, 1],
      cols =
        [(''open'', [Num 3, Num 3, Num 3]),
         (''high'', [Num 3, Num 3, Num 3]),
         (''low'', [Num (- 5), Num 3, Num 3]),
         (''close'', [Num (- 5), Num 3, Num 3]),
         (''volume'', [Num (- 1), Num 7, Num 7])]\<rparr>"

text \<open>
  The example bars with two indicator columns already present, as a frame is left by an
  earlier call of \<^verbatim>\<open>prepare_features\<close>: the latest RSI is 25, the latest MACD
  histogram 0.1.
\<close>

definition example_with_indicators :: frame where
  "example_with_indicators =
     setcol ''macd_diff'' [NaN, NaN, NaN, NaN, NaN, NaN, Num 0.1]
       (setcol ''rsi'' [NaN, NaN, NaN, NaN, NaN, NaN, Num 25] example_series)"

text \<open>The example bars with an RSI column whose latest value is 25.\<close>

definition example_oversold :: frame where
  "example_oversold = setcol ''rsi'' [NaN, NaN, NaN, NaN, NaN, NaN, Num 25] example_series"

text \<open>A trader whose three members are set and whose scaler is fitted for 15 features.\<close>

definition example_trader :: trader where
  "example_trader =
     \<lparr>price_predictor = Some (\<lambda>r. 111),
      trend_classifier =
        Some \<lparr>predict_class = (\<lambda>r. 1), predict_proba = (\<lambda>r. (0.2, 0.8))\<rparr>,
      scaler = Fitted (replicate 15 0) (replicate 15 1),
      prophet_model = Some (Forecaster 109),
      lstm_model = None,
      feature_columns = []\<rparr>"

text \<open>A directory in which only the regressor file is present.\<close>

definition partial_dir :: model_dir where
  "partial_dir = empty_dir\<lparr>price_predictor_pkl := Some (\<lambda>r. 111)\<rparr>"

section \<open>Lemmas on frames and on the indicator run\<close>

subsection \<open>Frames\<close>

lemma getcol_setcol: "getcol (setcol k c df) k' = (if k' = k then Inr c else getcol df k')"
  by (simp add: getcol_def setcol_def update_conv')

lemma has_col_setcol: "has_col (setcol k c df) k' = (k' = k \<or> has_col df k')"
  by (auto simp add: has_col_def setcol_def update_conv')

lemma row_index_setcol: "row_index (setcol k c df) = row_index df"
  by (simp add: setcol_def)

lemma has_col_getcol: "has_col df k \<Longrightarrow> \<exists>c. getcol df k = Inr c"
  by (auto simp: has_col_def getcol_def)

lemma getcol_has_col: "getcol df k = Inr c \<Longrightarrow> has_col df k"
  by (auto simp: has_col_def getcol_def split: option.splits)

lemma getcol_absent: "\<not> has_col df k \<Longrightarrow> getcol df k = Inl (KeyError k)"
  by (simp add: has_col_def getcol_def)

subsection \<open>Runs of assignments\<close>

lemma run_append:
  "run (ss @ ts) df = (case run ss df of Inl e \<Rightarrow> Inl e | Inr d \<Rightarrow> run ts d)"
  by (induction ss arbitrary: df) (auto split: sum.splits)

lemma run_row_index: "run ss df = Inr d \<Longrightarrow> row_index d = row_index df"
  by (induction ss arbitrary: df) (auto split: sum.splits simp: row_index_setcol)

lemma run_has_col_mono: "run ss df = Inr d \<Longrightarrow> has_col df k \<Longrightarrow> has_col d k"
  by (induction ss arbitrary: df) (auto split: sum.splits simp: has_col_setcol)

lemma run_assigned: "run ss df = Inr d \<Longrightarrow> k \<in> fst ` set ss \<Longrightarrow> has_col d k"
proof (induction ss arbitrary: df)
  case Nil
  then show ?case by simp
next
  case (Cons s ss)
  obtain k' rhs where s: "s = (k', rhs)" by (cases s)
  from Cons.prems(1) s obtain c where c: "rhs df = Inr c" and r: "run ss (setcol k' c df) = Inr d"
    by (auto split: sum.splits)
  show ?case
  proof (cases "k \<in> fst ` set ss")
    case True
    then show ?thesis using Cons.IH [OF r] by simp
  next
    case False
    with Cons.prems(2) s have "k = k'" by auto
    then have "has_col (setcol k' c df) k" by (simp add: has_col_setcol)
    then show ?thesis using run_has_col_mono [OF r] by simp
  qed
qed

lemma run_untouched: "run ss df = Inr d \<Longrightarrow> k \<notin> fst ` set ss \<Longrightarrow> getcol d k = getcol df k"
  by (induction ss arbitrary: df) (auto split: sum.splits simp: getcol_setcol)

lemma indicator_names:
  "fst ` set (indicator_steps lib) =
     {''rsi'', ''macd'', ''macd_signal'', ''macd_diff'', ''bb_high'', ''bb_low'', ''bb_mid'',
      ''ema_9'', ''ema_21'', ''sma_50'', ''volume_ema'', ''volume_ratio'', ''price_change'',
      ''high_low_ratio'', ''close_open_ratio'', ''volatility'', ''support'', ''resistance''}"
  by (simp add: indicator_steps_def)

lemma indicator_steps_ok:
  assumes "has_col df ''close''" "has_col df ''volume''" "has_col df ''high''"
    "has_col df ''low''" "has_col df ''open''"
  shows "\<exists>d. run (indicator_steps lib) df = Inr d"
proof -
  obtain c v h l opn where g: "getcol df ''close'' = Inr c" "getcol df ''volume'' = Inr v"
    "getcol df ''high'' = Inr h" "getcol df ''low'' = Inr l" "getcol df ''open'' = Inr opn"
    using assms by (meson has_col_getcol)
  show ?thesis
    unfolding indicator_steps_def
    by (simp add: on_col_def ratio_cols_def getcol_setcol g)
qed

lemma default_steps_ok:
  assumes "has_col df ''close''"
  shows "\<exists>d. run default_steps df = Inr d \<and> has_col d ''close'' \<and> has_col d ''high'' \<and>
           has_col d ''low'' \<and> has_col d ''open'' \<and> (has_col df ''volume'' \<longrightarrow> has_col d ''volume'')"
proof -
  obtain c where g: "getcol df ''close'' = Inr c"
    using assms by (meson has_col_getcol)
  show ?thesis
    unfolding default_steps_def
    by (simp add: on_col_def getcol_setcol has_col_setcol g assms)
qed

lemma add_indicators_ok:
  assumes "has_col df ''close''" "has_col df ''volume''"
  shows "\<exists>d. add_indicators lib df = Inr d"
proof (cases "list_all (has_col df) OHLCV")
  case True
  then have "has_col df ''high''" "has_col df ''low''" "has_col df ''open''"
    by (simp_all add: OHLCV_def)
  then show ?thesis
    using True assms indicator_steps_ok [of df lib] by (simp add: add_indicators_def)
next
  case False
  obtain d0 where d0: "run default_steps df = Inr d0" "has_col d0 ''close''" "has_col d0 ''high''"
    "has_col d0 ''low''" "has_col d0 ''open''" "has_col d0 ''volume''"
    using default_steps_ok [OF assms(1)] assms(2) by blast
  then show ?thesis
    using False indicator_steps_ok [of d0 lib] by (simp add: add_indicators_def run_append)
qed

lemma add_indicators_row_index: "add_indicators lib df = Inr d \<Longrightarrow> row_index d = row_index df"
  unfolding add_indicators_def by (rule run_row_index)

lemma add_indicators_mono: "add_indicators lib df = Inr d \<Longrightarrow> has_col df k \<Longrightarrow> has_col d k"
  unfolding add_indicators_def by (rule run_has_col_mono)

lemma add_indicators_assigned:
  assumes "add_indicators lib df = Inr d" "k \<in> fst ` set (indicator_steps lib)"
  shows "has_col d k"
proof -
  have "k \<in> fst ` set ((if list_all (has_col df) OHLCV then [] else default_steps) @ indicator_steps lib)"
    using assms(2) by auto
  then show ?thesis
    using assms(1) run_assigned unfolding add_indicators_def by blast
qed

lemma add_indicators_ohlcv:
  assumes "add_indicators lib df = Inr d" "list_all (has_col df) OHLCV" "k \<in> set OHLCV"
  shows "getcol d k = getcol df k"
proof -
  have r: "run (indicator_steps lib) df = Inr d"
    using assms(1,2) by (simp add: add_indicators_def)
  have "k \<notin> fst ` set (indicator_steps lib)"
    using assms(3) unfolding indicator_names OHLCV_def by auto
  then show ?thesis using run_untouched [OF r] by simp
qed

subsection \<open>The fill policy\<close>

lemma getcol_fill_frame:
  "getcol (fill_frame d) k =
     (case getcol d k of Inl e \<Rightarrow> Inl e | Inr c \<Rightarrow> Inr (fillna (Num 0) (ffill c)))"
  by (simp add: getcol_def fill_frame_def map_of_map split: option.splits)

lemma has_col_fill_frame: "has_col (fill_frame d) k = has_col d k"
  by (simp add: has_col_def fill_frame_def map_of_map)

lemma row_index_fill_frame: "row_index (fill_frame d) = row_index d"
  by (simp add: fill_frame_def)

lemma names_fill_frame: "map fst (cols (fill_frame d)) = map fst (cols d)"
  by (simp add: fill_frame_def case_prod_unfold comp_def)

lemma fillna_no_nan: "NaN \<notin> set (fillna (Num 0) c)"
  by (auto simp: fillna_def)

lemma fill_frame_no_nan: "(k, c) \<in> set (cols (fill_frame d)) \<Longrightarrow> NaN \<notin> set c"
  by (auto simp: fill_frame_def fillna_def)

lemma length_ffill_from: "length (ffill_from p c) = length c"
  by (induction c arbitrary: p) auto

lemma last_defined_Cons_0: "last_defined (x # xs) 0 = (if x = NaN then None else Some x)"
  by (simp add: last_defined_def)

lemma last_defined_Cons_Suc:
  "last_defined (x # xs) (Suc i) =
     (case last_defined xs i of None \<Rightarrow> (if x = NaN then None else Some x) | Some v \<Rightarrow> Some v)"
  by (auto simp: last_defined_def split: list.splits)

lemma ffill_from_nth:
  "i < length c \<Longrightarrow>
     ffill_from p c ! i = (case last_defined c i of None \<Rightarrow> p | Some v \<Rightarrow> v)"
proof (induction c arbitrary: p i)
  case Nil
  then show ?case by simp
next
  case (Cons x xs)
  show ?case
  proof (cases i)
    case 0
    then show ?thesis by (simp add: last_defined_Cons_0)
  next
    case (Suc j)
    with Cons.prems have j: "j < length xs" by simp
    show ?thesis
      using Cons.IH [OF j] Suc
      by (auto simp: last_defined_Cons_Suc split: option.splits)
  qed
qed

lemma last_defined_not_nan: "last_defined c i = Some v \<Longrightarrow> v \<noteq> NaN"
proof -
  assume a: "last_defined c i = Some v"
  then obtain y ys where f: "filter (\<lambda>x. x \<noteq> NaN) (take (Suc i) c) = y # ys" and v: "v = last (y # ys)"
    by (auto simp: last_defined_def split: list.splits)
  have "last (y # ys) \<in> set (filter (\<lambda>x. x \<noteq> NaN) (take (Suc i) c))"
    using f by (metis last_in_set list.discI)
  then show ?thesis using v by simp
qed

lemma fill_nth:
  assumes "i < length c"
  shows "fillna (Num 0) (ffill c) ! i = (case last_defined c i of None \<Rightarrow> Num 0 | Some v \<Rightarrow> v)"
proof -
  have "ffill c ! i = (case last_defined c i of None \<Rightarrow> NaN | Some v \<Rightarrow> v)"
    using assms by (simp add: ffill_def ffill_from_nth)
  then show ?thesis
    using assms last_defined_not_nan [of c i]
    by (auto simp: fillna_def ffill_def length_ffill_from split: option.splits)
qed

lemma fillna_ffill_from:
  "fillna (Num 0) (ffill_from p c) = ffill_from (if p = NaN then Num 0 else p) c"
  by (induction c arbitrary: p) (auto simp: fillna_def)

lemma fill_eq: "fillna (Num 0) (ffill c) = ffill_from (Num 0) c"
  by (simp add: ffill_def fillna_ffill_from)

lemma fill_id: "NaN \<notin> set c \<Longrightarrow> fillna (Num 0) (ffill c) = c"
proof -
  have "NaN \<notin> set c \<Longrightarrow> ffill_from p c = c" for p
    by (induction c arbitrary: p) auto
  moreover have "NaN \<notin> set c \<Longrightarrow> fillna (Num 0) c = c"
    by (induction c) (auto simp: fillna_def)
  ultimately show "NaN \<notin> set c \<Longrightarrow> fillna (Num 0) (ffill c) = c"
    by (simp add: ffill_def)
qed

subsection \<open>Column selection\<close>

lemma select_cols_names: "select_cols ks df = Inr r \<Longrightarrow> map fst r = ks"
  by (induction ks arbitrary: r) (auto split: sum.splits)

lemma select_cols_ok: "\<forall>k \<in> set ks. has_col df k \<Longrightarrow> \<exists>r. select_cols ks df = Inr r"
proof (induction ks)
  case Nil
  then show ?case by simp
next
  case (Cons k ks)
  then obtain r where "select_cols ks df = Inr r" by auto
  moreover obtain c where "getcol df k = Inr c"
    using Cons.prems has_col_getcol by fastforce
  ultimately show ?case by simp
qed

lemma feature_columns_assigned: "set FEATURE_COLUMNS \<subseteq> fst ` set (indicator_steps lib)"
  unfolding indicator_names FEATURE_COLUMNS_def by simp

lemma prepare_features_ok:
  assumes "has_col df ''close''" "has_col df ''volume''"
  shows "\<exists>d X. add_indicators lib df = Inr d \<and>
           prepare_features lib t df = Inr (t\<lparr>feature_columns := FEATURE_COLUMNS\<rparr>, d, X) \<and>
           select_cols FEATURE_COLUMNS (fill_frame d) = Inr (cols X) \<and>
           row_index X = row_index df"
proof -
  obtain d where d: "add_indicators lib df = Inr d"
    using add_indicators_ok [OF assms] by blast
  have "\<forall>k \<in> set FEATURE_COLUMNS. has_col (fill_frame d) k"
    using add_indicators_assigned [OF d] feature_columns_assigned [of lib]
    unfolding has_col_fill_frame by blast
  then obtain r where r: "select_cols FEATURE_COLUMNS (fill_frame d) = Inr r"
    using select_cols_ok by blast
  show ?thesis
    using d r add_indicators_row_index [OF d]
    by (simp add: prepare_features_def select_frame_def row_index_fill_frame)
qed


section \<open>Feature Builder: the feature vector\<close>

text \<open>
  Claim C8. On every series that has its close and volume columns (without them the
  indicator computation raises KeyError), \<^verbatim>\<open>prepare_features\<close> returns exactly the
  15 named feature columns in the fixed order, and records that list in the trader. A
  repeated call, on the frame as the first call left it, returns the same column order.
\<close>

theorem prepare_features_columns:
  assumes "has_col df ''close''" and "has_col df ''volume''"
  shows "\<exists>t' d X. prepare_features lib t df = Inr (t', d, X) \<and>
           map fst (cols X) =
             [''rsi'', ''macd'', ''macd_signal'', ''macd_diff'', ''bb_high'', ''bb_low'',
              ''bb_mid'', ''ema_9'', ''ema_21'', ''sma_50'', ''volume_ratio'',
              ''price_change'', ''high_low_ratio'', ''close_open_ratio'', ''volatility''] \<and>
           length (cols X) = 15 \<and>
           feature_columns t' = map fst (cols X) \<and>
           (\<exists>t'' d' X'. prepare_features lib t' d = Inr (t'', d', X') \<and>
              map fst (cols X') = map fst (cols X))"
proof -
  obtain d X where d: "add_indicators lib df = Inr d"
    and p: "prepare_features lib t df = Inr (t\<lparr>feature_columns := FEATURE_COLUMNS\<rparr>, d, X)"
    and s: "select_cols FEATURE_COLUMNS (fill_frame d) = Inr (cols X)"
    using prepare_features_ok [OF assms] by blast
  have n: "map fst (cols X) = FEATURE_COLUMNS"
    using select_cols_names [OF s] .
  have "has_col d ''close''" "has_col d ''volume''"
    using add_indicators_mono [OF d] assms by blast+
  then obtain d' X' where
    p': "prepare_features lib (t\<lparr>feature_columns := FEATURE_COLUMNS\<rparr>) d =
           Inr (t\<lparr>feature_columns := FEATURE_COLUMNS\<rparr>, d', X')"
    and s': "select_cols FEATURE_COLUMNS (fill_frame d') = Inr (cols X')"
    using prepare_features_ok [of d lib "t\<lparr>feature_columns := FEATURE_COLUMNS\<rparr>"] by auto
  have n': "map fst (cols X') = FEATURE_COLUMNS"
    using select_cols_names [OF s'] .
  have l: "length (cols X) = 15"
    using arg_cong [OF n, of length] by (simp add: FEATURE_COLUMNS_def)
  show ?thesis
    using p p' n n' l by (simp add: FEATURE_COLUMNS_def)
qed

theorem prepare_features_columns_witness:
  "has_col example_series ''close'' \<and> has_col example_series ''volume'' \<and>
   (\<exists>t' d X. prepare_features reference_lib init_trader example_series = Inr (t', d, X) \<and>
      map fst (cols X) =
        [''rsi'', ''macd'', ''macd_signal'', ''macd_diff'', ''bb_high'', ''bb_low'',
         ''bb_mid'', ''ema_9'', ''ema_21'', ''sma_50'', ''volume_ratio'',
         ''price_change'', ''high_low_ratio'', ''close_open_ratio'', ''volatility''] \<and>
      length (cols X) = 15 \<and>
      feature_columns t' = map fst (cols X) \<and>
      (\<exists>t'' d' X'. prepare_features reference_lib t' d = Inr (t'', d', X') \<and>
         map fst (cols X') = map fst (cols X)))"
proof -
  have h: "has_col example_series ''close''" "has_col example_series ''volume''"
    by (simp_all add: has_col_def example_series_def)
  show ?thesis
    by (intro conjI h prepare_features_columns [OF h])
qed

lemma last_defined_None:
  assumes "i < length c"
  shows "last_defined c i = None \<longleftrightarrow> (\<forall>j \<le> i. c ! j = NaN)"
proof -
  have "last_defined c i = None \<longleftrightarrow> filter (\<lambda>x. x \<noteq> NaN) (take (Suc i) c) = []"
    by (simp add: last_defined_def split: list.splits)
  also have "\<dots> \<longleftrightarrow> (\<forall>x \<in> set (take (Suc i) c). x = NaN)"
    by (simp add: filter_empty_conv)
  also have "\<dots> \<longleftrightarrow> (\<forall>j < length (take (Suc i) c). take (Suc i) c ! j = NaN)"
    by (simp add: all_set_conv_all_nth)
  also have "\<dots> \<longleftrightarrow> (\<forall>j \<le> i. c ! j = NaN)"
    using assms by (auto simp: less_Suc_eq_le min_def)
  finally show ?thesis .
qed

lemma length_fill: "length (fillna (Num 0) (ffill c)) = length c"
  by (simp add: fillna_def ffill_def length_ffill_from)

lemma calculate_ok:
  assumes "has_col df ''close''" "has_col df ''volume''"
  shows "\<exists>d. add_indicators lib df = Inr d \<and>
           calculate_technical_indicators lib df = Inr (fill_frame d)"
  using add_indicators_ok [OF assms, of lib]
  by (auto simp: calculate_technical_indicators_def)

section \<open>Indicator Engine: the fill policy\<close>

text \<open>
  Claim C5. On every series that has its close and volume columns (the valid series of
  length at least 50 among them), \<^verbatim>\<open>calculate_technical_indicators\<close> returns a frame
  without NaN in any row of any column. The fill is a forward fill followed by a zero
  fill: each cell of the result is the last value of the computed column at or before its
  row that is not NaN, and 0 when there is none. This is the forward fill in which a value
  undefined at row 0 counts as 0: the rows before the first defined value of a column,
  row 0 included, are 0, and every later undefined row repeats the value before it.
\<close>

theorem calculate_technical_indicators_no_nan:
  assumes "has_col df ''close''" and "has_col df ''volume''"
  shows "\<exists>d r. add_indicators lib df = Inr d \<and>
           calculate_technical_indicators lib df = Inr r \<and>
           (\<forall>(k, c) \<in> set (cols r). NaN \<notin> set c) \<and>
           map fst (cols r) = map fst (cols d) \<and>
           (\<forall>k c. getcol d k = Inr c \<longrightarrow>
              (\<exists>c'. getcol r k = Inr c' \<and> length c' = length c \<and>
                 c' = ffill_from (Num 0) c \<and>
                 (\<forall>i < length c.
                    c' ! i = (case last_defined c i of None \<Rightarrow> Num 0 | Some v \<Rightarrow> v) \<and>
                    ((\<forall>j \<le> i. c ! j = NaN) \<longrightarrow> c' ! i = Num 0))))"
proof -
  obtain d where d: "add_indicators lib df = Inr d"
    and r: "calculate_technical_indicators lib df = Inr (fill_frame d)"
    using calculate_ok [OF assms] by blast
  have 1: "\<forall>(k, c) \<in> set (cols (fill_frame d)). NaN \<notin> set c"
    using fill_frame_no_nan by blast
  have 2: "\<exists>c'. getcol (fill_frame d) k = Inr c' \<and> length c' = length c \<and>
             c' = ffill_from (Num 0) c \<and>
             (\<forall>i < length c.
                c' ! i = (case last_defined c i of None \<Rightarrow> Num 0 | Some v \<Rightarrow> v) \<and>
                ((\<forall>j \<le> i. c ! j = NaN) \<longrightarrow> c' ! i = Num 0))"
    if g: "getcol d k = Inr c" for k c
  proof (intro exI conjI allI impI)
    show "getcol (fill_frame d) k = Inr (fillna (Num 0) (ffill c))"
      using g by (simp add: getcol_fill_frame)
    show "length (fillna (Num 0) (ffill c)) = length c"
      by (rule length_fill)
    show "fillna (Num 0) (ffill c) = ffill_from (Num 0) c"
      by (rule fill_eq)
  next
    fix i assume i: "i < length c"
    show "fillna (Num 0) (ffill c) ! i = (case last_defined c i of None \<Rightarrow> Num 0 | Some v \<Rightarrow> v)"
      using i by (rule fill_nth)
    assume "\<forall>j \<le> i. c ! j = NaN"
    then have "last_defined c i = None"
      using last_defined_None [OF i] by simp
    then show "fillna (Num 0) (ffill c) ! i = Num 0"
      using fill_nth [OF i] by simp
  qed
  show ?thesis
    using d r 1 2 names_fill_frame [of d] by blast
qed

theorem calculate_technical_indicators_no_nan_witness:
  "has_col example_series ''close'' \<and> has_col example_series ''volume'' \<and>
   (\<exists>r. calculate_technical_indicators reference_lib example_series = Inr r \<and>
      (\<forall>(k, c) \<in> set (cols r). NaN \<notin> set c))"
proof -
  have h: "has_col example_series ''close''" "has_col example_series ''volume''"
    by (simp_all add: has_col_def example_series_def)
  from calculate_technical_indicators_no_nan [OF h, of reference_lib]
  obtain r where "calculate_technical_indicators reference_lib example_series = Inr r"
    "\<forall>(k, c) \<in> set (cols r). NaN \<notin> set c" by blast
  then show ?thesis using h by blast
qed

section \<open>Indicator Engine: no validation of the series\<close>

text \<open>
  Claim C4, as stated, fails: a series with a repeated and decreasing timestamp, a
  negative price and a negative volume is not rejected; the indicators are computed and
  the negative price is returned unchanged.
\<close>

theorem malformed_series_not_rejected:
  "row_index malformed_series = [2, 1, 1] \<and>
   getcol malformed_series ''close'' = Inr [Num (- 5), Num 3, Num 3] \<and>
   getcol malformed_series ''volume'' = Inr [Num (- 1), Num 7, Num 7] \<and>
   \<not> isl (calculate_technical_indicators reference_lib malformed_series) \<and>
   row_index (projr (calculate_technical_indicators reference_lib malformed_series)) = [2, 1, 1] \<and>
   getcol (projr (calculate_technical_indicators reference_lib malformed_series)) ''close'' =
     Inr [Num (- 5), Num 3, Num 3] \<and>
   has_col (projr (calculate_technical_indicators reference_lib malformed_series)) ''rsi''"
proof -
  have h: "has_col malformed_series ''close''" "has_col malformed_series ''volume''"
    by (simp_all add: has_col_def malformed_series_def)
  have a: "list_all (has_col malformed_series) OHLCV"
    by (simp add: has_col_def malformed_series_def OHLCV_def)
  have c: "getcol malformed_series ''close'' = Inr [Num (- 5), Num 3, Num 3]"
    by (simp add: getcol_def malformed_series_def)
  obtain d where d: "add_indicators reference_lib malformed_series = Inr d"
    and r: "calculate_technical_indicators reference_lib malformed_series = Inr (fill_frame d)"
    using calculate_ok [OF h] by blast
  have "getcol d ''close'' = Inr [Num (- 5), Num 3, Num 3]"
    using add_indicators_ohlcv [OF d a, of "''close''"] c by (simp add: OHLCV_def)
  then have 1: "getcol (fill_frame d) ''close'' = Inr [Num (- 5), Num 3, Num 3]"
    by (simp add: getcol_fill_frame fillna_def ffill_def)
  have 2: "has_col (fill_frame d) ''rsi''"
    using add_indicators_assigned [OF d, of "''rsi''"]
    by (simp add: has_col_fill_frame indicator_names)
  have 3: "row_index (fill_frame d) = [2, 1, 1]"
    using add_indicators_row_index [OF d]
    by (simp add: row_index_fill_frame malformed_series_def)
  show ?thesis
    using r c 1 2 3 by (simp add: malformed_series_def getcol_def)
qed

text \<open>
  Claim C4, amended. \<^verbatim>\<open>calculate_technical_indicators\<close> checks neither timestamps nor
  signs: every series that has its close and volume columns is accepted, its index is
  returned as it is and every indicator column is computed.
\<close>

theorem calculate_technical_indicators_no_validation:
  assumes "has_col df ''close''" and "has_col df ''volume''"
  shows "\<exists>r. calculate_technical_indicators lib df = Inr r \<and> row_index r = row_index df \<and>
           (\<forall>k \<in> fst ` set (indicator_steps lib). has_col r k)"
proof -
  obtain d where d: "add_indicators lib df = Inr d"
    and r: "calculate_technical_indicators lib df = Inr (fill_frame d)"
    using calculate_ok [OF assms] by blast
  show ?thesis
    using r add_indicators_row_index [OF d] add_indicators_assigned [OF d]
    by (simp add: row_index_fill_frame has_col_fill_frame)
qed

theorem calculate_technical_indicators_no_validation_witness:
  "has_col malformed_series ''close'' \<and> has_col malformed_series ''volume'' \<and>
   (\<exists>r. calculate_technical_indicators reference_lib malformed_series = Inr r \<and>
      row_index r = [2, 1, 1])"
proof -
  have h: "has_col malformed_series ''close''" "has_col malformed_series ''volume''"
    by (simp_all add: has_col_def malformed_series_def)
  from calculate_technical_indicators_no_validation [OF h, of reference_lib]
  obtain r where "calculate_technical_indicators reference_lib malformed_series = Inr r"
    "row_index r = row_index malformed_series" by blast
  then show ?thesis using h by (auto simp: malformed_series_def)
qed

subsection \<open>The first rows of a frame\<close>

lemma getcol_head_rows:
  "getcol (head_rows n df) k = (case getcol df k of Inl e \<Rightarrow> Inl e | Inr c \<Rightarrow> Inr (take n c))"
  by (simp add: getcol_def head_rows_def map_of_map split: option.splits)

lemma has_col_head_rows: "has_col (head_rows n df) k = has_col df k"
  by (simp add: has_col_def head_rows_def map_of_map)

lemma update_map_values:
  "AList.update k (g v) (map (\<lambda>(k, c). (k, g c)) al) = map (\<lambda>(k, c). (k, g c)) (AList.update k v al)"
  by (induction al) auto

lemma setcol_head_rows: "setcol k (take n c) (head_rows n df) = head_rows n (setcol k c df)"
  by (simp add: setcol_def head_rows_def update_map_values)

lemma run_head_rows:
  assumes "\<forall>(k, rhs) \<in> set ss. \<forall>df.
             rhs (head_rows n df) = (case rhs df of Inl e \<Rightarrow> Inl e | Inr c \<Rightarrow> Inr (take n c))"
  shows "run ss (head_rows n df) =
           (case run ss df of Inl e \<Rightarrow> Inl e | Inr d \<Rightarrow> Inr (head_rows n d))"
  using assms
proof (induction ss arbitrary: df)
  case Nil
  then show ?case by simp
next
  case (Cons s ss)
  obtain k rhs where s: "s = (k, rhs)" by (cases s)
  have h: "rhs (head_rows n df) = (case rhs df of Inl e \<Rightarrow> Inl e | Inr c \<Rightarrow> Inr (take n c))"
    using Cons.prems s by auto
  have ih: "run ss (head_rows n d) =
              (case run ss d of Inl e \<Rightarrow> Inl e | Inr d' \<Rightarrow> Inr (head_rows n d'))" for d
    using Cons.IH Cons.prems by auto
  show ?case
    by (cases "rhs df") (simp_all add: s h ih setcol_head_rows)
qed

lemma on_col_head_rows:
  "causal f \<Longrightarrow>
     on_col a f (head_rows n df) = (case on_col a f df of Inl e \<Rightarrow> Inl e | Inr c \<Rightarrow> Inr (take n c))"
  by (simp add: on_col_def getcol_head_rows causal_def split: sum.splits)

lemma ratio_cols_head_rows:
  "ratio_cols a b (head_rows n df) =
     (case ratio_cols a b df of Inl e \<Rightarrow> Inl e | Inr c \<Rightarrow> Inr (take n c))"
  by (simp add: ratio_cols_def getcol_head_rows take_map take_zip split: sum.splits)

lemma causal_id: "causal id"
  by (simp add: causal_def)

lemma steps_head_rows:
  assumes "causal_lib lib"
  shows "run (indicator_steps lib) (head_rows n df) =
           (case run (indicator_steps lib) df of Inl e \<Rightarrow> Inl e | Inr d \<Rightarrow> Inr (head_rows n d))"
  using assms
  by (intro run_head_rows)
     (simp add: indicator_steps_def causal_lib_def on_col_head_rows ratio_cols_head_rows)

lemma default_head_rows:
  "run default_steps (head_rows n df) =
     (case run default_steps df of Inl e \<Rightarrow> Inl e | Inr d \<Rightarrow> Inr (head_rows n d))"
  by (intro run_head_rows) (simp add: default_steps_def on_col_head_rows causal_id)

lemma add_indicators_head_rows:
  assumes "causal_lib lib"
  shows "add_indicators lib (head_rows n df) =
           (case add_indicators lib df of Inl e \<Rightarrow> Inl e | Inr d \<Rightarrow> Inr (head_rows n d))"
proof -
  have "list_all (has_col (head_rows n df)) OHLCV = list_all (has_col df) OHLCV"
    by (simp add: list_all_iff has_col_head_rows)
  then show ?thesis
    by (simp add: add_indicators_def run_append default_head_rows steps_head_rows [OF assms]
        split: sum.splits)
qed

lemma ffill_from_take: "ffill_from p (take n c) = take n (ffill_from p c)"
proof (induction c arbitrary: p n)
  case Nil
  then show ?case by simp
next
  case (Cons x xs)
  then show ?case by (cases n) auto
qed

lemma fill_frame_head_rows: "fill_frame (head_rows n d) = head_rows n (fill_frame d)"
  by (simp add: fill_frame_def head_rows_def ffill_def fillna_def ffill_from_take take_map
      case_prod_unfold comp_def)

lemma calculate_head_rows:
  assumes "causal_lib lib"
  shows "calculate_technical_indicators lib (head_rows n df) =
           (case calculate_technical_indicators lib df of Inl e \<Rightarrow> Inl e
            | Inr r \<Rightarrow> Inr (head_rows n r))"
  by (simp add: calculate_technical_indicators_def add_indicators_head_rows [OF assms]
      fill_frame_head_rows split: sum.splits)

subsection \<open>The reference library has no look-ahead\<close>

lemma per_row_from_take: "per_row_from g h (take n xs) = take n (per_row_from g h xs)"
proof (induction xs arbitrary: h n)
  case Nil
  then show ?case by simp
next
  case (Cons x xs)
  then show ?case by (cases n) auto
qed

lemma causal_per_row: "causal (per_row g)"
  by (simp add: causal_def per_row_def per_row_from_take)

lemma causal_reference_lib: "causal_lib reference_lib"
  by (simp add: causal_lib_def reference_lib_def causal_per_row)

section \<open>Indicator Engine: frame and look-ahead\<close>

text \<open>
  Claim C9. For a series in which the five OHLCV columns are present and hold numbers,
  \<^verbatim>\<open>calculate_technical_indicators\<close> returns the same rows (the index is unchanged)
  with the open, high, low, close and volume columns unchanged; every column of the input
  is still present, so columns are only added. With series transformers that have no
  look-ahead, the first n rows of the result are the result on the first n rows of the
  input, for every n: a row's indicators depend on no later row.
\<close>

theorem calculate_technical_indicators_frame:
  assumes "list_all (has_col df) OHLCV"
    and "\<forall>k \<in> set OHLCV. \<forall>c. getcol df k = Inr c \<longrightarrow> NaN \<notin> set c"
    and "causal_lib lib"
  shows "\<exists>r. calculate_technical_indicators lib df = Inr r \<and>
           row_index r = row_index df \<and>
           (\<forall>k \<in> set OHLCV. getcol r k = getcol df k) \<and>
           (\<forall>k. has_col df k \<longrightarrow> has_col r k) \<and>
           (\<forall>n. calculate_technical_indicators lib (head_rows n df) = Inr (head_rows n r))"
proof -
  have h: "has_col df ''close''" "has_col df ''volume''"
    using assms(1) by (simp_all add: OHLCV_def)
  obtain d where d: "add_indicators lib df = Inr d"
    and r: "calculate_technical_indicators lib df = Inr (fill_frame d)"
    using calculate_ok [OF h] by blast
  have 1: "row_index (fill_frame d) = row_index df"
    using add_indicators_row_index [OF d] by (simp add: row_index_fill_frame)
  have 2: "getcol (fill_frame d) k = getcol df k" if k: "k \<in> set OHLCV" for k
  proof -
    have "has_col df k" using assms(1) k by (simp add: list_all_iff)
    then obtain c where c: "getcol df k = Inr c" using has_col_getcol by blast
    then have "NaN \<notin> set c" using assms(2) k by blast
    then show ?thesis
      using add_indicators_ohlcv [OF d assms(1) k] c by (simp add: getcol_fill_frame fill_id)
  qed
  have 3: "has_col (fill_frame d) k" if "has_col df k" for k
    using add_indicators_mono [OF d that] by (simp add: has_col_fill_frame)
  have 4: "calculate_technical_indicators lib (head_rows n df) = Inr (head_rows n (fill_frame d))" for n
    using calculate_head_rows [OF assms(3), of n df] r by simp
  show ?thesis
    using r 1 2 3 4 by blast
qed

theorem calculate_technical_indicators_frame_witness:
  "list_all (has_col example_series) OHLCV \<and>
   list_all (\<lambda>k. case getcol example_series k of Inl e \<Rightarrow> False | Inr c \<Rightarrow> NaN \<notin> set c) OHLCV \<and>
   causal_lib reference_lib \<and>
   (\<exists>r. calculate_technical_indicators reference_lib example_series = Inr r \<and>
      row_index r = row_index example_series \<and>
      (\<forall>k \<in> set OHLCV. getcol r k = getcol example_series k) \<and>
      (\<forall>k. has_col example_series k \<longrightarrow> has_col r k) \<and>
      (\<forall>n. calculate_technical_indicators reference_lib (head_rows n example_series) =
         Inr (head_rows n r)))"
proof -
  have a: "list_all (has_col example_series) OHLCV"
    by (simp add: has_col_def example_series_def OHLCV_def)
  have c: "list_all (\<lambda>k. case getcol example_series k of Inl e \<Rightarrow> False | Inr c \<Rightarrow> NaN \<notin> set c) OHLCV"
    by (simp add: getcol_def example_series_def OHLCV_def)
  then have b: "\<forall>k \<in> set OHLCV. \<forall>c. getcol example_series k = Inr c \<longrightarrow> NaN \<notin> set c"
    by (auto simp: list_all_iff)
  show ?thesis
    by (intro conjI a c causal_reference_lib
        calculate_technical_indicators_frame [OF a b causal_reference_lib])
qed

section \<open>Lemmas on inference and fusion\<close>

subsection \<open>Evaluation on concrete inputs\<close>

lemmas lib_defs = reference_lib_def per_row_def rsi_at_def macd_at_def macd_signal_at_def
  sma_at_def std_at_def min_at_def max_at_def ema_at_def pct_at_def window_def smooth_def

lemmas frame_defs = add_indicators_def indicator_steps_def default_steps_def OHLCV_def
  on_col_def ratio_cols_def getcol_def setcol_def has_col_def fill_frame_def ffill_def fillna_def
  calculate_technical_indicators_def

lemmas signal_defs = generate_trading_signals_def prepare_features_def select_frame_def
  FEATURE_COLUMNS_def frame_rows_def predict_price_def predict_trend_def scaler_transform_def
  to_matrix_def scale_row_def scale_of_def latest_get_def last_rows_def nrows_def
  rsi_signal_of_def macd_signal_of_def count_signals_def make_recommendation_def mean_def Let_def

subsection \<open>The fusion rule\<close>

lemma generate_trading_signals_fields:
  assumes "generate_trading_signals lib now t df = Inr (t', sig)"
  shows "(recommendation sig, confidence sig) =
           (case count_signals (trend (trend_analysis sig)) (ind_signal (technical_rsi sig))
                   (ind_signal (technical_macd sig)) of
              (b, s) \<Rightarrow> make_recommendation b s)"
  using assms
  by (auto simp: generate_trading_signals_def Let_def split: if_splits sum.splits prod.splits)

lemma count_signals_eq:
  "count_signals tr rs ms =
     ((if tr = ''bullish'' then 2 else 0) + (if rs = ''oversold'' then 1 else 0) +
        (if ms = ''bullish'' then 1 else 0),
      (if tr = ''bullish'' then 0 else 2) + (if rs = ''overbought'' then 1 else 0) +
        (if ms = ''bullish'' then 0 else 1))"
  by (simp add: count_signals_def)

section \<open>Signal Fusion: the decision rule\<close>

text \<open>
  Claim C1. Whenever \<^verbatim>\<open>generate_trading_signals\<close> returns a signal, its bullish points
  b are 2 if the trend is bullish, plus 1 if the RSI signal is oversold, plus 1 if the
  MACD signal is bullish; its bearish points s are 2 if the trend is not bullish, plus 1
  if the RSI signal is overbought, plus 1 if the MACD signal is not bullish. The
  recommendation is BUY if b > s + 1, SELL if s > b + 1 and HOLD otherwise; the confidence
  is the winning side's points divided by b + s, and exactly 0.5 on HOLD. The decision
  rule gives BUY with 4/6 on (4, 2), HOLD with 0.5 on (3, 3) and SELL with 4/6 on (2, 4).
\<close>

theorem generate_trading_signals_fusion:
  assumes "generate_trading_signals lib now t df = Inr (t', sig)"
  shows "(\<exists>b s :: nat.
            b = (if trend (trend_analysis sig) = ''bullish'' then 2 else 0) +
                (if ind_signal (technical_rsi sig) = ''oversold'' then 1 else 0) +
                (if ind_signal (technical_macd sig) = ''bullish'' then 1 else 0) \<and>
            s = (if trend (trend_analysis sig) = ''bullish'' then 0 else 2) +
                (if ind_signal (technical_rsi sig) = ''overbought'' then 1 else 0) +
                (if ind_signal (technical_macd sig) = ''bullish'' then 0 else 1) \<and>
            recommendation sig =
              (if s + 1 < b then ''BUY'' else if b + 1 < s then ''SELL'' else ''HOLD'') \<and>
            confidence sig =
              (if s + 1 < b then real b / real (b + s)
               else if b + 1 < s then real s / real (b + s) else 1 / 2)) \<and>
         make_recommendation 4 2 = (''BUY'', 4 / 6) \<and>
         make_recommendation 3 3 = (''HOLD'', 1 / 2) \<and>
         make_recommendation 2 4 = (''SELL'', 4 / 6)"
proof -
  have "(recommendation sig, confidence sig) =
          (case count_signals (trend (trend_analysis sig)) (ind_signal (technical_rsi sig))
                  (ind_signal (technical_macd sig)) of
             (b, s) \<Rightarrow> make_recommendation b s)"
    using assms by (rule generate_trading_signals_fields)
  then have "recommendation sig = fst (case count_signals (trend (trend_analysis sig))
                  (ind_signal (technical_rsi sig)) (ind_signal (technical_macd sig)) of
             (b, s) \<Rightarrow> make_recommendation b s)"
    and "confidence sig = snd (case count_signals (trend (trend_analysis sig))
                  (ind_signal (technical_rsi sig)) (ind_signal (technical_macd sig)) of
             (b, s) \<Rightarrow> make_recommendation b s)"
    by (metis fst_conv, metis snd_conv)
  then show ?thesis
    by (simp add: count_signals_eq make_recommendation_def)
qed

theorem generate_trading_signals_fusion_witness:
  "\<exists>t' sig. generate_trading_signals reference_lib ''2024-01-01T00:00:00'' example_trader
              example_with_indicators = Inr (t', sig) \<and>
     trend (trend_analysis sig) = ''bullish'' \<and>
     ind_signal (technical_rsi sig) = ''oversold'' \<and>
     ind_signal (technical_macd sig) = ''bullish'' \<and>
     recommendation sig = ''BUY'' \<and> confidence sig = 1"
proof -
  have "\<exists>t' sig. generate_trading_signals reference_lib ''2024-01-01T00:00:00'' example_trader
              example_with_indicators = Inr (t', sig) \<and>
     trend (trend_analysis sig) = ''bullish'' \<and>
     ind_signal (technical_rsi sig) = ''oversold'' \<and>
     ind_signal (technical_macd sig) = ''bullish''"
    by (simp add: signal_defs frame_defs lib_defs example_trader_def
        example_with_indicators_def example_series_def)
  then obtain t' sig where
    g: "generate_trading_signals reference_lib ''2024-01-01T00:00:00'' example_trader
              example_with_indicators = Inr (t', sig)"
    and s: "trend (trend_analysis sig) = ''bullish''" "ind_signal (technical_rsi sig) = ''oversold''"
       "ind_signal (technical_macd sig) = ''bullish''"
    by blast
  from generate_trading_signals_fusion [OF g] s
  have "recommendation sig = ''BUY'' \<and> confidence sig = 1" by simp
  then show ?thesis using g s by blast
qed

section \<open>Signal Fusion: the range of the confidence\<close>

text \<open>
  Claim C10. Whenever \<^verbatim>\<open>generate_trading_signals\<close> returns a signal, the two counters
  add up to 3 or 4, the confidence is one of 0.5, 0.75 and 1 (so it lies between 0.5 and
  1), and a BUY or a SELL has at least 3 points on its side and a confidence of 0.75 or 1.
\<close>

theorem generate_trading_signals_confidence:
  assumes "generate_trading_signals lib now t df = Inr (t', sig)"
  shows "\<exists>b s. count_signals (trend (trend_analysis sig)) (ind_signal (technical_rsi sig))
                  (ind_signal (technical_macd sig)) = (b, s) \<and>
           (b + s = 3 \<or> b + s = 4) \<and>
           (recommendation sig = ''HOLD'' \<and> confidence sig = 1 / 2 \<or>
            recommendation sig = ''BUY'' \<and> 3 \<le> b \<and> (confidence sig = 3 / 4 \<or> confidence sig = 1) \<or>
            recommendation sig = ''SELL'' \<and> 3 \<le> s \<and> (confidence sig = 3 / 4 \<or> confidence sig = 1)) \<and>
           confidence sig \<in> {1 / 2, 3 / 4, 1} \<and> 1 / 2 \<le> confidence sig \<and> confidence sig \<le> 1"
proof -
  have "(recommendation sig, confidence sig) =
          (case count_signals (trend (trend_analysis sig)) (ind_signal (technical_rsi sig))
                  (ind_signal (technical_macd sig)) of
             (b, s) \<Rightarrow> make_recommendation b s)"
    using assms by (rule generate_trading_signals_fields)
  then have "recommendation sig = fst (case count_signals (trend (trend_analysis sig))
                  (ind_signal (technical_rsi sig)) (ind_signal (technical_macd sig)) of
             (b, s) \<Rightarrow> make_recommendation b s)"
    and "confidence sig = snd (case count_signals (trend (trend_analysis sig))
                  (ind_signal (technical_rsi sig)) (ind_signal (technical_macd sig)) of
             (b, s) \<Rightarrow> make_recommendation b s)"
    by (metis fst_conv, metis snd_conv)
  then show ?thesis
    by (simp add: count_signals_eq make_recommendation_def)
qed

theorem generate_trading_signals_confidence_witness:
  "\<exists>t' sig. generate_trading_signals reference_lib ''2024-01-01T00:00:00'' example_trader
              example_oversold = Inr (t', sig) \<and>
     recommendation sig = ''BUY'' \<and> confidence sig = 3 / 4 \<and>
     confidence sig \<in> {1 / 2, 3 / 4, 1}"
proof -
  have "\<exists>t' sig. generate_trading_signals reference_lib ''2024-01-01T00:00:00'' example_trader
              example_oversold = Inr (t', sig) \<and>
     recommendation sig = ''BUY'' \<and> confidence sig = 3 / 4"
    by (simp add: signal_defs frame_defs lib_defs example_trader_def
        example_oversold_def example_series_def)
  then obtain t' sig where
    g: "generate_trading_signals reference_lib ''2024-01-01T00:00:00'' example_trader
              example_oversold = Inr (t', sig)"
    and s: "recommendation sig = ''BUY''" "confidence sig = 3 / 4"
    by blast
  from generate_trading_signals_confidence [OF g]
  have "confidence sig \<in> {1 / 2, 3 / 4, 1}" by blast
  then show ?thesis using g s by blast
qed

section \<open>Signal Fusion with an untrained trader\<close>

text \<open>
  Claim C2, evaluated on the code. With no member trained, on plain OHLCV bars,
  \<^verbatim>\<open>predict_price\<close> returns the empty result and \<^verbatim>\<open>predict_trend\<close> the neutral
  default with confidence 0.5, without raising. The fusion then counts the neutral trend
  as two bearish points (the \<^verbatim>\<open>else\<close> branch of the trend vote) and returns SELL with
  confidence 1, not HOLD with confidence 0.5.
\<close>

theorem untrained_trader_recommends_sell:
  "\<not> isl (generate_trading_signals reference_lib ''2024-01-01T00:00:00'' init_trader example_series) \<and>
   price_prediction (snd (projr (generate_trading_signals reference_lib ''2024-01-01T00:00:00''
      init_trader example_series))) = [] \<and>
   trend (trend_analysis (snd (projr (generate_trading_signals reference_lib ''2024-01-01T00:00:00''
      init_trader example_series)))) = ''neutral'' \<and>
   trend_confidence (trend_analysis (snd (projr (generate_trading_signals reference_lib
      ''2024-01-01T00:00:00'' init_trader example_series)))) = 1 / 2 \<and>
   recommendation (snd (projr (generate_trading_signals reference_lib ''2024-01-01T00:00:00''
      init_trader example_series))) = ''SELL'' \<and>
   confidence (snd (projr (generate_trading_signals reference_lib ''2024-01-01T00:00:00''
      init_trader example_series))) = 1"
  by (simp add: signal_defs frame_defs lib_defs init_trader_def example_series_def)

subsection \<open>Persistence\<close>

lemma load_after_save:
  assumes "price_predictor t = Some rf" "trend_classifier t = Some clf" "prophet_model t = Some pm"
  shows "load_models u (save_models t fs) =
           (u\<lparr>price_predictor := Some rf, trend_classifier := Some clf, scaler := scaler t,
              prophet_model := Some pm\<rparr>, True)"
  using assms by (simp add: load_models_def save_models_def)

lemma predict_price_cong:
  assumes "price_predictor a = price_predictor b" "scaler a = scaler b"
    "prophet_model a = prophet_model b" "feature_columns a = feature_columns b"
  shows "predict_price a x = predict_price b x"
  unfolding predict_price_def assms ..

lemma predict_trend_cong:
  assumes "trend_classifier a = trend_classifier b" "scaler a = scaler b"
    "feature_columns a = feature_columns b"
  shows "predict_trend a x = predict_trend b x"
  unfolding predict_trend_def assms ..

lemma generate_trading_signals_cong:
  assumes "price_predictor a = price_predictor b" "trend_classifier a = trend_classifier b"
    "scaler a = scaler b" "prophet_model a = prophet_model b"
  shows "map_sum id snd (generate_trading_signals lib now a df) =
         map_sum id snd (generate_trading_signals lib now b df)"
proof -
  have p: "predict_price (a\<lparr>feature_columns := F\<rparr>) x = predict_price (b\<lparr>feature_columns := F\<rparr>) x" for F x
    using assms by (intro predict_price_cong) simp_all
  have q: "predict_trend (a\<lparr>feature_columns := F\<rparr>) x = predict_trend (b\<lparr>feature_columns := F\<rparr>) x" for F x
    using assms by (intro predict_trend_cong) simp_all
  show ?thesis
    by (simp add: generate_trading_signals_def prepare_features_def Let_def p q
        split: sum.splits prod.splits)
qed

section \<open>Persistence: save then load\<close>

text \<open>
  Claim C7. For a trader whose three members are trained, \<^verbatim>\<open>save_models\<close> followed
  by \<^verbatim>\<open>load_models\<close> gives back the four parts (regressor, classifier, scaler,
  forecaster) exactly: on the same trader the state is unchanged and so are its price and
  trend predictions on every input; loaded into any trader u, the four parts are those of
  the saved one and the signal generated from any series (price, trend and forecast
  predictions included) is the same as before the save.
\<close>

theorem save_load_round_trip:
  assumes "price_predictor t \<noteq> None" and "trend_classifier t \<noteq> None"
    and "prophet_model t \<noteq> None"
  shows "load_models t (save_models t fs) = (t, True) \<and>
         predict_price (fst (load_models t (save_models t fs))) x = predict_price t x \<and>
         predict_trend (fst (load_models t (save_models t fs))) x = predict_trend t x \<and>
         snd (load_models u (save_models t fs)) \<and>
         price_predictor (fst (load_models u (save_models t fs))) = price_predictor t \<and>
         trend_classifier (fst (load_models u (save_models t fs))) = trend_classifier t \<and>
         scaler (fst (load_models u (save_models t fs))) = scaler t \<and>
         prophet_model (fst (load_models u (save_models t fs))) = prophet_model t \<and>
         map_sum id snd (generate_trading_signals lib now (fst (load_models u (save_models t fs))) df) =
           map_sum id snd (generate_trading_signals lib now t df)"
proof -
  obtain rf clf pm where m: "price_predictor t = Some rf" "trend_classifier t = Some clf"
    "prophet_model t = Some pm"
    using assms by auto
  have l: "load_models v (save_models t fs) =
           (v\<lparr>price_predictor := Some rf, trend_classifier := Some clf, scaler := scaler t,
              prophet_model := Some pm\<rparr>, True)" for v
    using m by (rule load_after_save)
  have same: "load_models t (save_models t fs) = (t, True)"
    using m by (simp add: l)
  have parts: "price_predictor (fst (load_models u (save_models t fs))) = price_predictor t"
    "trend_classifier (fst (load_models u (save_models t fs))) = trend_classifier t"
    "scaler (fst (load_models u (save_models t fs))) = scaler t"
    "prophet_model (fst (load_models u (save_models t fs))) = prophet_model t"
    using m by (simp_all add: l)
  have gen: "map_sum id snd (generate_trading_signals lib now (fst (load_models u (save_models t fs))) df) =
           map_sum id snd (generate_trading_signals lib now t df)"
    using parts by (intro generate_trading_signals_cong)
  show ?thesis
    using same parts gen by (simp add: l)
qed

theorem save_load_round_trip_witness:
  "price_predictor example_trader \<noteq> None \<and> trend_classifier example_trader \<noteq> None \<and>
   prophet_model example_trader \<noteq> None \<and>
   load_models example_trader (save_models example_trader empty_dir) = (example_trader, True) \<and>
   map_sum id snd (generate_trading_signals reference_lib ''2024-01-01T00:00:00''
       (fst (load_models init_trader (save_models example_trader empty_dir))) example_series) =
     map_sum id snd (generate_trading_signals reference_lib ''2024-01-01T00:00:00''
       example_trader example_series)"
proof -
  have h: "price_predictor example_trader \<noteq> None" "trend_classifier example_trader \<noteq> None"
    "prophet_model example_trader \<noteq> None"
    by (simp_all add: example_trader_def)
  show ?thesis
    using h save_load_round_trip [OF h, of empty_dir _ init_trader reference_lib
        "''2024-01-01T00:00:00''" example_series]
    by simp
qed

section \<open>Persistence: a load that fails part-way\<close>

text \<open>
  Claim C6, evaluated on the code. A new trader loads from a directory in which only the
  regressor file is present: the failure is logged and not raised, but the regressor of
  the partial load remains set while classifier, forecaster and a fitted scaler are
  missing, and generating a signal with that trader raises NotFittedError.
\<close>

theorem partial_load_leaves_regressor:
  "\<not> snd (load_models init_trader partial_dir) \<and>
   price_predictor (fst (load_models init_trader partial_dir)) \<noteq> None \<and>
   trend_classifier (fst (load_models init_trader partial_dir)) = None \<and>
   scaler (fst (load_models init_trader partial_dir)) = Unfitted \<and>
   prophet_model (fst (load_models init_trader partial_dir)) = None \<and>
   generate_trading_signals reference_lib ''2024-01-01T00:00:00''
     (fst (load_models init_trader partial_dir)) example_series = Inl NotFittedError"
  by (simp add: load_models_def partial_dir_def empty_dir_def signal_defs frame_defs lib_defs
      init_trader_def example_series_def)

subsection \<open>Training\<close>

lemmas train_defs = train_price_predictor_def train_trend_classifier_def train_prophet_model_def
  train_ai_models_def shift_back_def train_test_split_def n_train_def n_test_def
  scaler_fit_transform_def fit_params_def variance_def init_trader_def reference_learners_def

lemma train_prophet_model_keeps:
  assumes "train_prophet_model L t df = Inr (t', d)"
  shows "price_predictor t' = price_predictor t \<and> scaler t' = scaler t"
  using assms by (auto simp: train_prophet_model_def split: sum.splits)

lemma train_trend_classifier_keeps:
  assumes "train_trend_classifier L lib t df = Inr (t', d)"
  shows "price_predictor t' = price_predictor t"
proof -
  from assms obtain t1 d1 X where p: "prepare_features lib t df = Inr (t1, d1, X)"
    by (auto simp: train_trend_classifier_def split: sum.splits)
  then have 1: "price_predictor t1 = price_predictor t"
    by (auto simp: prepare_features_def Let_def split: sum.splits)
  from assms p obtain sc clf where "t' = t1\<lparr>scaler := sc, trend_classifier := Some clf\<rparr>"
    by (auto simp: train_trend_classifier_def Let_def split: sum.splits prod.splits)
  then show ?thesis using 1 by simp
qed

lemma train_ai_models_members:
  assumes "train_ai_models L lib df = Inr t"
  shows "\<exists>t1 d1 t2 d2. train_price_predictor L lib init_trader df = Inr (t1, d1) \<and>
           train_trend_classifier L lib t1 d1 = Inr (t2, d2) \<and>
           price_predictor t = price_predictor t1 \<and> scaler t = scaler t2"
proof -
  from assms obtain t1 d1 t2 d2 d3 where
    1: "train_price_predictor L lib init_trader df = Inr (t1, d1)"
    and 2: "train_trend_classifier L lib t1 d1 = Inr (t2, d2)"
    and 3: "train_prophet_model L t2 d2 = Inr (t, d3)"
    by (auto simp: train_ai_models_def split: sum.splits)
  show ?thesis
    using 1 2 train_prophet_model_keeps [OF 3] train_trend_classifier_keeps [OF 2] by simp
qed

section \<open>Training: the shared scaler\<close>

text \<open>
  Claim C3, evaluated on the code. On the seven example bars \<^verbatim>\<open>train_price_predictor\<close>
  fits the scaler on the first 4 of the 6 rows that have a next close (mean 2 and
  variance 0 for the high/low ratio) and trains the regressor on rows scaled so. In
  \<^verbatim>\<open>train_ai_models\<close> the classifier routine then refits the same scaler on the first
  5 of all 7 rows (mean 12/5, variance 16/25), and that is the scaler
  \<^verbatim>\<open>predict_price\<close> applies to the unchanged regressor. The two training partitions
  differ in size for 719 and 720 rows as well.
\<close>

theorem shared_scaler_refit:
  "\<not> isl (train_price_predictor reference_learners reference_lib init_trader example_series) \<and>
   scaler (fst (projr (train_price_predictor reference_learners reference_lib init_trader
      example_series))) =
     Fitted [0, 0, 0, 0, 0, 0, 0, 0, 0, 0, 0, 0, 2, 1, 0] [0, 0, 0, 0, 0, 0, 0, 0, 0, 0, 0, 0, 0, 0, 0] \<and>
   \<not> isl (train_ai_models reference_learners reference_lib example_series) \<and>
   scaler (projr (train_ai_models reference_learners reference_lib example_series)) =
     Fitted [0, 0, 0, 0, 0, 0, 0, 0, 0, 0, 0, 0, 12 / 5, 1, 0]
       [0, 0, 0, 0, 0, 0, 0, 0, 0, 0, 0, 0, 16 / 25, 0, 0] \<and>
   price_predictor (projr (train_ai_models reference_learners reference_lib example_series)) =
     price_predictor (fst (projr (train_price_predictor reference_learners reference_lib
       init_trader example_series))) \<and>
   n_train 6 = 4 \<and> n_train 7 = 5 \<and> n_train 719 = 575 \<and> n_train 720 = 576"
  by (simp add: train_defs signal_defs frame_defs lib_defs example_series_def power2_eq_square)

end
